theory Spec2Isabelle
  imports Complex_Main "HOL-Library.Sublist"
begin

unbundle bit_operations_syntax

section \<open>Python values handled by the search endpoint\<close>

text \<open>
  The handler of \<^verbatim>\<open>gistapi.py\<close> works on values decoded from JSON: the POST body
  (\<^verbatim>\<open>request.get_json()\<close>) and the bodies of the upstream responses
  (\<^verbatim>\<open>response.json()\<close>). A decoded value is \<^verbatim>\<open>None\<close>, a bool, an int, a float,
  a str, a list or a dict with str keys. A dict is kept as its items in insertion order.
  A float is kept as the rational number it denotes (the non-finite floats, which are no
  JSON, are left out). A \<open>string\<close> stands for a Python str whose code points are below 256.
\<close>

datatype json =
    JNull
  | JBool bool
  | JInt int
  | JFloat rat
  | JStr string
  | JArr "json list"
  | JObj "(string \<times> json) list"

text \<open>The exceptions the handler can meet; none of them is caught anywhere in the module.\<close>

datatype exn =
    TypeError
  | KeyError
  | ValueError
  | AttributeError
  | ReError
  | JSONDecodeError
  | RequestException

subsection \<open>Built-in operations of Python used by the handler\<close>

text \<open>Truth value testing, as in \<^verbatim>\<open>if post_data:\<close>.\<close>

fun truthy :: "json \<Rightarrow> bool" where
  "truthy JNull = False"
| "truthy (JBool b) = b"
| "truthy (JInt i) = (i \<noteq> 0)"
| "truthy (JFloat r) = (r \<noteq> 0)"
| "truthy (JStr s) = (s \<noteq> [])"
| "truthy (JArr xs) = (xs \<noteq> [])"
| "truthy (JObj kvs) = (kvs \<noteq> [])"

text \<open>\<^verbatim>\<open>k in s\<close> for two strs: \<open>k\<close> occurs in \<open>s\<close> as a contiguous run.\<close>

primrec is_substr :: "string \<Rightarrow> string \<Rightarrow> bool" where
  "is_substr k [] = (k = [])"
| "is_substr k (c # s) = (prefix k (c # s) \<or> is_substr k s)"

text \<open>
  \<^verbatim>\<open>k in v\<close> with a str \<open>k\<close> on the left: a key of a dict, an element of a list,
  a substring of a str; any other right operand raises \<^verbatim>\<open>TypeError\<close>
  (argument is not iterable).
\<close>

fun py_in :: "string \<Rightarrow> json \<Rightarrow> exn + bool" where
  "py_in k (JObj kvs) = Inr (k \<in> set (map fst kvs))"
| "py_in k (JArr xs) = Inr (JStr k \<in> set xs)"
| "py_in k (JStr s) = Inr (is_substr k s)"
| "py_in k v = Inl TypeError"

text \<open>
  \<^verbatim>\<open>v[k]\<close> with a str \<open>k\<close>: the value of a dict, \<^verbatim>\<open>KeyError\<close> when the key is
  absent; lists and strs take integer indices only and every other value is not
  subscriptable, both \<^verbatim>\<open>TypeError\<close>.
\<close>

fun py_getitem :: "json \<Rightarrow> string \<Rightarrow> exn + json" where
  "py_getitem (JObj kvs) k = (case map_of kvs k of None \<Rightarrow> Inl KeyError | Some v \<Rightarrow> Inr v)"
| "py_getitem v k = Inl TypeError"

text \<open>\<^verbatim>\<open>v.values()\<close>: only a dict has the method.\<close>

fun py_values :: "json \<Rightarrow> exn + json list" where
  "py_values (JObj kvs) = Inr (map snd kvs)"
| "py_values v = Inl AttributeError"

text \<open>\<^verbatim>\<open>value, = vs\<close>: unpacking into exactly one target.\<close>

fun unpack_single :: "json list \<Rightarrow> exn + json" where
  "unpack_single [v] = Inr v"
| "unpack_single vs = Inl ValueError"

text \<open>Iterating a value: the elements of a list, the keys of a dict, the characters of a str.\<close>

fun py_iter :: "json \<Rightarrow> exn + json list" where
  "py_iter (JArr xs) = Inr xs"
| "py_iter (JObj kvs) = Inr (map (\<lambda>kv. JStr (fst kv)) kvs)"
| "py_iter (JStr s) = Inr (map (\<lambda>c. JStr [c]) s)"
| "py_iter v = Inl TypeError"

text \<open>Lists and dicts are unhashable.\<close>

fun hashable :: "json \<Rightarrow> bool" where
  "hashable (JArr xs) = False"
| "hashable (JObj kvs) = False"
| "hashable v = True"

text \<open>Equality of hashable values: numbers (bools among them) compare by value.\<close>

fun py_num :: "json \<Rightarrow> rat option" where
  "py_num (JBool b) = Some (if b then 1 else 0)"
| "py_num (JInt i) = Some (of_int i)"
| "py_num (JFloat r) = Some r"
| "py_num v = None"

definition py_eq :: "json \<Rightarrow> json \<Rightarrow> bool" where
  "py_eq a b =
     (case py_num a of
        Some x \<Rightarrow> (case py_num b of Some y \<Rightarrow> x = y | None \<Rightarrow> False)
      | None \<Rightarrow> (case py_num b of Some y \<Rightarrow> False | None \<Rightarrow> a = b))"

text \<open>
  \<^verbatim>\<open>set(data)\<close>: \<^verbatim>\<open>TypeError\<close> when \<open>data\<close> cannot be iterated or one of its
  elements is unhashable; otherwise its elements without repetition. A set iterates in
  an order of its own; the model lists the elements by first occurrence (lemma
  \<open>search_loop_hashable\<close> below shows that the order never matters here).
\<close>

definition set_add :: "json list \<Rightarrow> json \<Rightarrow> json list" where
  "set_add s x = (if list_ex (py_eq x) s then s else s @ [x])"

definition py_set :: "json \<Rightarrow> exn + json list" where
  "py_set data =
     (case py_iter data of
        Inl e \<Rightarrow> Inl e
      | Inr xs \<Rightarrow> if list_all hashable xs then Inr (foldl set_add [] xs) else Inl TypeError)"

section \<open>The collaborators: HTTP client, regular expression library, formatting\<close>

text \<open>What \<^verbatim>\<open>requests.get\<close> returns: the status, the body as text, and the body decoded
  as JSON (\<open>None\<close> when it is no JSON, where \<^verbatim>\<open>response.json()\<close> raises).\<close>

record response =
  status_code :: int
  text_body :: string
  json_body :: "json option"

text \<open>A compiled pattern is used through \<^verbatim>\<open>findall\<close> only.\<close>

type_synonym matcher = "string \<Rightarrow> string list"

text \<open>
  The environment of one request: \<open>requests_get url\<close> is the answer of the upstream (or of
  the cache in front of it) to a GET, or the exception the client raises;
  \<open>re_compile p flags\<close> is \<^verbatim>\<open>re.compile\<close> on a str; \<open>py_str v\<close> is the text that
  \<^verbatim>\<open>str.format\<close> and f-strings put in for \<open>v\<close>.
\<close>

record env =
  requests_get :: "string \<Rightarrow> exn + response"
  re_compile :: "string \<Rightarrow> int \<Rightarrow> exn + matcher"
  py_str :: "json \<Rightarrow> string"

definition re_IGNORECASE :: int where
  "re_IGNORECASE = 2"

definition re_MULTILINE :: int where
  "re_MULTILINE = 8"

text \<open>Line 86: \<^verbatim>\<open>re.compile(pattern, re.MULTILINE | re.IGNORECASE)\<close>; the first argument
  must be a str (a pattern of another type is a \<^verbatim>\<open>TypeError\<close>).\<close>

definition compile_pattern :: "env \<Rightarrow> json \<Rightarrow> exn + matcher" where
  "compile_pattern E pattern =
     (case pattern of
        JStr p \<Rightarrow> re_compile E p (re_MULTILINE OR re_IGNORECASE)
      | _ \<Rightarrow> Inl TypeError)"

section \<open>The module\<close>

text \<open>
  Every function returns its outcome (\<open>Inl\<close> an exception that leaves the function,
  \<open>Inr\<close> its value) together with the log of the URLs requested so far, oldest first.
\<close>

type_synonym log = "string list"

text \<open>Line 44: the address of the listing of a user's gists.\<close>

definition gists_url :: "env \<Rightarrow> json \<Rightarrow> string" where
  "gists_url E username = ''https://api.github.com/users/'' @ py_str E username @ ''/gists''"

definition gists_for_user :: "env \<Rightarrow> json \<Rightarrow> log \<Rightarrow> (exn + bool \<times> json \<times> json) \<times> log" where
  "gists_for_user E username lg =
     (let lg' = lg @ [gists_url E username]
      in case requests_get E (gists_url E username) of
           Inl e \<Rightarrow> (Inl e, lg')
         | Inr response \<Rightarrow>
             (case json_body response of
                None \<Rightarrow> (Inl JSONDecodeError, lg')
              | Some json_data \<Rightarrow>
                  if status_code response = 200
                  then (Inr (True, JStr ''Successful'', json_data), lg')
                  else (case py_getitem json_data ''message'' of
                          Inl e \<Rightarrow> (Inl e, lg')
                        | Inr msg \<Rightarrow> (Inr (False, msg, json_data), lg'))))"

text \<open>The body of the loop of \<^verbatim>\<open>search\<close> (lines 92 to 99) for one \<open>gist\<close>.\<close>

definition search_gist ::
  "env \<Rightarrow> matcher \<Rightarrow> json \<Rightarrow> json \<Rightarrow> json list \<Rightarrow> log \<Rightarrow> (exn + json list) \<times> log" where
  "search_gist E regex_pattern username gist match_list lg =
     (case py_getitem gist ''files'' of
        Inl e \<Rightarrow> (Inl e, lg)
      | Inr files \<Rightarrow>
     (case py_values files of
        Inl e \<Rightarrow> (Inl e, lg)
      | Inr vs \<Rightarrow>
     (case unpack_single vs of
        Inl e \<Rightarrow> (Inl e, lg)
      | Inr v \<Rightarrow>
     (case py_getitem v ''raw_url'' of
        Inl e \<Rightarrow> (Inl e, lg)
      | Inr raw_url \<Rightarrow>
     (case requests_get E (py_str E raw_url) of
        Inl e \<Rightarrow> (Inl e, lg @ [py_str E raw_url])
      | Inr response \<Rightarrow>
          if status_code response = 200
          then (if length (regex_pattern (text_body response)) > 0
                then (case py_getitem gist ''id'' of
                        Inl e \<Rightarrow> (Inl e, lg @ [py_str E raw_url])
                      | Inr gid \<Rightarrow>
                          (Inr (match_list @
                                [JStr (''https://gist.github.com/'' @ py_str E username
                                       @ ''/'' @ py_str E gid)]),
                           lg @ [py_str E raw_url]))
                else (Inr match_list, lg @ [py_str E raw_url]))
          else (Inr match_list, lg @ [py_str E raw_url]))))))"

text \<open>The loop itself: the first exception ends it.\<close>

fun search_loop ::
  "env \<Rightarrow> matcher \<Rightarrow> json \<Rightarrow> json list \<Rightarrow> json list \<Rightarrow> log \<Rightarrow> (exn + json list) \<times> log" where
  "search_loop E regex_pattern username [] match_list lg = (Inr match_list, lg)"
| "search_loop E regex_pattern username (gist # gists) match_list lg =
     (case search_gist E regex_pattern username gist match_list lg of
        (Inl e, lg') \<Rightarrow> (Inl e, lg')
      | (Inr match_list', lg') \<Rightarrow> search_loop E regex_pattern username gists match_list' lg')"

text \<open>
  The handler of \<^verbatim>\<open>POST /api/v1/search\<close>, from the decoded body \<open>post_data\<close>
  (\<open>JNull\<close> is \<^verbatim>\<open>None\<close>) to the value handed to \<^verbatim>\<open>jsonify\<close>.
\<close>

definition search :: "env \<Rightarrow> json \<Rightarrow> (exn + json) \<times> log" where
  "search E post_data =
     (if truthy post_data then
        (case py_in ''username'' post_data of
           Inl e \<Rightarrow> (Inl e, [])
         | Inr has_username \<Rightarrow>
        if \<not> has_username
        then (Inr (JObj [(''status'', JStr ''failed''),
                         (''message'', JStr ''username is required'')]), [])
        else
        (case py_in ''pattern'' post_data of
           Inl e \<Rightarrow> (Inl e, [])
         | Inr has_pattern \<Rightarrow>
        if \<not> has_pattern
        then (Inr (JObj [(''status'', JStr ''failed''),
                         (''message'', JStr ''pattern is required'')]), [])
        else
        (case py_getitem post_data ''username'' of
           Inl e \<Rightarrow> (Inl e, [])
         | Inr username \<Rightarrow>
        (case py_getitem post_data ''pattern'' of
           Inl e \<Rightarrow> (Inl e, [])
         | Inr pattern \<Rightarrow>
        (case gists_for_user E username [] of
           (Inl e, lg) \<Rightarrow> (Inl e, lg)
         | (Inr (is_successful, msg, data), lg) \<Rightarrow>
             if is_successful then
               (case compile_pattern E pattern of
                  Inl e \<Rightarrow> (Inl e, lg)
                | Inr regex_pattern \<Rightarrow>
               (case py_set data of
                  Inl e \<Rightarrow> (Inl e, lg)
                | Inr gists \<Rightarrow>
               (case search_loop E regex_pattern username gists [] lg of
                  (Inl e, lg') \<Rightarrow> (Inl e, lg')
                | (Inr match_list, lg') \<Rightarrow>
                    (Inr (JObj [(''status'', JStr ''success''),
                                (''username'', username),
                                (''pattern'', pattern),
                                (''matches'', JArr match_list)]), lg'))))
             else
               (Inr (JObj [(''status'', JStr ''failed''),
                           (''message'', msg),
                           (''username'', username),
                           (''pattern'', pattern),
                           (''matches'', JArr [])]), lg))))))
      else (Inr (JObj [(''status'', JStr ''failed''),
                       (''message'', JStr ''Invalid parameters'')]), []))"

section \<open>A reference semantics for a fragment of the pattern language\<close>

text \<open>
  The regular expression library is no part of the module. What the module fixes is the
  flags it compiles with; what those flags mean is stated here for the patterns made of
  ordinary characters, \<^verbatim>\<open>.\<close>, \<^verbatim>\<open>^\<close> and \<^verbatim>\<open>$\<close>, after the documentation of
  the library: \<^verbatim>\<open>^\<close> matches at the start of the text and, in multiline mode, after
  each newline; \<^verbatim>\<open>$\<close> matches at the end of the text (and before a newline that ends
  it) and, in multiline mode, before each newline; \<^verbatim>\<open>.\<close> matches any character but
  a newline; with \<^verbatim>\<open>IGNORECASE\<close> two characters match when their lower cases agree.
  A pattern may switch an option off for a part of itself: inside the groups
  \<^verbatim>\<open>(?-i:...)\<close>, \<^verbatim>\<open>(?-m:...)\<close> and \<^verbatim>\<open>(?-im:...)\<close> the characters are compared
  as they are (\<open>LitCase\<close>) and the anchors are those of the whole text (\<open>BolText\<close>,
  \<open>EolText\<close>), whatever flags the pattern is compiled with.
\<close>

datatype atom = Lit char | AnyChar | Bol | Eol | LitCase char | BolText | EolText

datatype parsed = Parsed "atom list" | Malformed | Unmodelled

definition atom_of :: "char \<Rightarrow> atom" where
  "atom_of c =
     (if c = CHR ''^'' then Bol
      else if c = CHR ''$'' then Eol
      else if c = CHR ''.'' then AnyChar
      else Lit c)"

text \<open>The atom that stands for \<open>a\<close> where the options \<open>off\<close> are switched off.\<close>

definition switch_off :: "int \<Rightarrow> atom \<Rightarrow> atom" where
  "switch_off off a =
     (case a of
        Lit c \<Rightarrow> if off AND re_IGNORECASE \<noteq> 0 then LitCase c else Lit c
      | Bol \<Rightarrow> if off AND re_MULTILINE \<noteq> 0 then BolText else Bol
      | Eol \<Rightarrow> if off AND re_MULTILINE \<noteq> 0 then EolText else Eol
      | _ \<Rightarrow> a)"

text \<open>The head of a group that switches options off, read after its opening parenthesis.\<close>

definition group_open :: "string \<Rightarrow> (int \<times> string) option" where
  "group_open cs =
     (if prefix ''?-i:'' cs then Some (re_IGNORECASE, drop 4 cs)
      else if prefix ''?-m:'' cs then Some (re_MULTILINE, drop 4 cs)
      else if prefix ''?-im:'' cs \<or> prefix ''?-mi:'' cs
      then Some (re_MULTILINE OR re_IGNORECASE, drop 5 cs)
      else None)"

text \<open>
  \<open>parse_atoms off cs\<close> reads \<open>cs\<close> where the options \<open>off\<close> are switched off (\<open>0\<close>
  outside every group). A pattern whose first special character is a \<^verbatim>\<open>[\<close> that no
  \<^verbatim>\<open>]\<close> follows is rejected by the library (unterminated character set); a pattern
  with any other special character, or with a group of another kind, is outside the
  fragment.
\<close>

function parse_atoms :: "int \<Rightarrow> string \<Rightarrow> parsed" where
  "parse_atoms off [] = (if off = 0 then Parsed [] else Unmodelled)"
| "parse_atoms off (c # cs) =
     (if c = CHR ''['' then (if CHR '']'' \<in> set cs then Unmodelled else Malformed)
      else if c = CHR ''('' then
        (if off \<noteq> 0 then Unmodelled
         else (case group_open cs of
                 None \<Rightarrow> Unmodelled
               | Some (off', cs') \<Rightarrow> parse_atoms off' cs'))
      else if c = CHR '')'' then (if off = 0 then Unmodelled else parse_atoms 0 cs)
      else if c \<in> set (CHR 0x5C # ''*+?{}|]'') then Unmodelled
      else (case parse_atoms off cs of
              Parsed as \<Rightarrow> Parsed (switch_off off (atom_of c) # as)
            | r \<Rightarrow> r))"
  by pat_completeness auto
termination
  by (relation "measure (\<lambda>(off, cs). length cs)") (auto simp: group_open_def split: if_splits)

definition ref_parse :: "string \<Rightarrow> parsed" where
  "ref_parse p = parse_atoms 0 p"

definition newline :: char where
  "newline = CHR 0x0A"

text \<open>Lower case of a code point below 256.\<close>

definition py_lower :: "char \<Rightarrow> char" where
  "py_lower c =
     (let n = (of_char c :: nat)
      in if (65 \<le> n \<and> n \<le> 90) \<or> (192 \<le> n \<and> n \<le> 222 \<and> n \<noteq> 215)
         then char_of (n + 32) else c)"

definition ignorecase :: "int \<Rightarrow> bool" where
  "ignorecase fl = (fl AND re_IGNORECASE \<noteq> 0)"

definition multiline :: "int \<Rightarrow> bool" where
  "multiline fl = (fl AND re_MULTILINE \<noteq> 0)"

definition chr_eq :: "int \<Rightarrow> char \<Rightarrow> char \<Rightarrow> bool" where
  "chr_eq fl c d = (if ignorecase fl then py_lower c = py_lower d else c = d)"

text \<open>
  \<open>match_here fl as prev rest\<close>: the text matched by the atoms \<open>as\<close> at the position
  whose preceding character is \<open>prev\<close> (\<open>None\<close> at the start) and whose remaining text is
  \<open>rest\<close>.
\<close>

fun match_here :: "int \<Rightarrow> atom list \<Rightarrow> char option \<Rightarrow> string \<Rightarrow> string option" where
  "match_here fl [] prev rest = Some []"
| "match_here fl (Lit c # as) prev [] = None"
| "match_here fl (Lit c # as) prev (d # rest) =
     (if chr_eq fl c d then map_option ((#) d) (match_here fl as (Some d) rest) else None)"
| "match_here fl (AnyChar # as) prev [] = None"
| "match_here fl (AnyChar # as) prev (d # rest) =
     (if d \<noteq> newline then map_option ((#) d) (match_here fl as (Some d) rest) else None)"
| "match_here fl (Bol # as) prev rest =
     (if prev = None \<or> (multiline fl \<and> prev = Some newline)
      then match_here fl as prev rest else None)"
| "match_here fl (Eol # as) prev rest =
     (if rest = [] \<or> rest = [newline] \<or> (multiline fl \<and> take 1 rest = [newline])
      then match_here fl as prev rest else None)"
| "match_here fl (LitCase c # as) prev [] = None"
| "match_here fl (LitCase c # as) prev (d # rest) =
     (if c = d then map_option ((#) d) (match_here fl as (Some d) rest) else None)"
| "match_here fl (BolText # as) prev rest =
     (if prev = None then match_here fl as prev rest else None)"
| "match_here fl (EolText # as) prev rest =
     (if rest = [] \<or> rest = [newline] then match_here fl as prev rest else None)"



text \<open>
  \<^verbatim>\<open>findall\<close>: the matches from left to right, none overlapping another; \<open>skip\<close>
  counts the characters still covered by the last match.
\<close>

fun findall_scan :: "int \<Rightarrow> atom list \<Rightarrow> nat \<Rightarrow> char option \<Rightarrow> string \<Rightarrow> string list" where
  "findall_scan fl as skip prev [] =
     (if skip = 0
      then (case match_here fl as prev [] of None \<Rightarrow> [] | Some m \<Rightarrow> [m])
      else [])"
| "findall_scan fl as skip prev (d # rest) =
     (if skip > 0 then findall_scan fl as (skip - 1) (Some d) rest
      else (case match_here fl as prev (d # rest) of
              None \<Rightarrow> findall_scan fl as 0 (Some d) rest
            | Some m \<Rightarrow> m # findall_scan fl as (length m - 1) (Some d) rest))"

definition ref_findall :: "int \<Rightarrow> atom list \<Rightarrow> matcher" where
  "ref_findall fl as txt = findall_scan fl as 0 None txt"

text \<open>
  An engine agrees with the reference when, for the four combinations of the two flags,
  it rejects what the reference calls malformed and compiles a pattern of the fragment
  to the reference matcher.
\<close>

fun agrees :: "parsed \<Rightarrow> int \<Rightarrow> exn + matcher \<Rightarrow> bool" where
  "agrees (Parsed as) fl r = (r = Inr (ref_findall fl as))"
| "agrees Malformed fl r = (r = Inl ReError)"
| "agrees Unmodelled fl r = True"

definition models_re :: "env \<Rightarrow> bool" where
  "models_re E = (\<forall>p fl. fl \<in> {0, 2, 8, 10} \<longrightarrow> agrees (ref_parse p) fl (re_compile E p fl))"

section \<open>A sample environment\<close>

text \<open>
  Concrete collaborators on which the theorems below are instantiated. The engine is the
  reference one (it rejects every pattern it does not model); only strs are formatted.
  The upstream knows six users: \<open>octocat\<close> with three gists (the content of the first
  holds a line \<open>foo\<close>, that of the second does not, that of the third cannot be
  fetched), \<open>twice\<close> whose listing holds the same gist two times, \<open>odd\<close> with a gist of
  no file and a gist of two files, \<open>ghost\<close> whose listing is refused with a message,
  \<open>down\<close> whose listing is refused with a body that is no JSON, and \<open>quiet\<close> whose
  listing is refused with a JSON object that holds no message.
\<close>

definition fragment_compile :: "string \<Rightarrow> int \<Rightarrow> exn + matcher" where
  "fragment_compile p fl =
     (case ref_parse p of Parsed as \<Rightarrow> Inr (ref_findall fl as) | _ \<Rightarrow> Inl ReError)"

definition sample_str :: "json \<Rightarrow> string" where
  "sample_str v = (case v of JStr s \<Rightarrow> s | _ \<Rightarrow> [])"

definition gist_of :: "string \<Rightarrow> (string \<times> string) list \<Rightarrow> json" where
  "gist_of gid files =
     JObj [(''id'', JStr gid),
           (''files'', JObj (map (\<lambda>(name, url). (name, JObj [(''raw_url'', JStr url)])) files))]"

definition gist_a :: json where
  "gist_a = gist_of ''a1'' [(''a.txt'', ''https://gist.example/raw/a'')]"

definition gist_b :: json where
  "gist_b = gist_of ''b2'' [(''b.txt'', ''https://gist.example/raw/b'')]"

definition gist_c :: json where
  "gist_c = gist_of ''c3'' [(''c.txt'', ''https://gist.example/raw/c'')]"

definition gist_none :: json where
  "gist_none = gist_of ''n0'' []"

definition gist_two :: json where
  "gist_two = gist_of ''t2'' [(''x.txt'', ''https://gist.example/raw/x''),
                              (''y.txt'', ''https://gist.example/raw/y'')]"

definition ok_json :: "json \<Rightarrow> exn + response" where
  "ok_json v = Inr \<lparr>status_code = 200, text_body = ''(json)'', json_body = Some v\<rparr>"

definition sample_get :: "string \<Rightarrow> exn + response" where
  "sample_get url =
     (if url = ''https://api.github.com/users/octocat/gists''
      then ok_json (JArr [gist_a, gist_b, gist_c])
      else if url = ''https://api.github.com/users/twice/gists''
      then ok_json (JArr [gist_a, gist_a])
      else if url = ''https://api.github.com/users/odd/gists''
      then ok_json (JArr [gist_none, gist_two])
      else if url = ''https://api.github.com/users/ghost/gists''
      then Inr \<lparr>status_code = 404, text_body = ''(json)'',
                json_body = Some (JObj [(''message'', JStr ''Not Found'')])\<rparr>
      else if url = ''https://api.github.com/users/down/gists''
      then Inr \<lparr>status_code = 502, text_body = ''Bad Gateway'', json_body = None\<rparr>
      else if url = ''https://api.github.com/users/quiet/gists''
      then Inr \<lparr>status_code = 403, text_body = ''(json)'',
                json_body = Some (JObj [(''error'', JStr ''Forbidden'')])\<rparr>
      else if url = ''https://gist.example/raw/a''
      then Inr \<lparr>status_code = 200, text_body = ''bar'' @ [newline] @ ''foo'' @ [newline] @ ''baz'',
                json_body = None\<rparr>
      else if url = ''https://gist.example/raw/b''
      then Inr \<lparr>status_code = 200, text_body = ''nothing here'', json_body = None\<rparr>
      else if url = ''https://gist.example/raw/c''
      then Inr \<lparr>status_code = 404, text_body = ''gone'', json_body = None\<rparr>
      else Inl RequestException)"

definition sample_env :: env where
  "sample_env = \<lparr>requests_get = sample_get, re_compile = fragment_compile, py_str = sample_str\<rparr>"

definition request :: "string \<Rightarrow> string \<Rightarrow> json" where
  "request username pattern = JObj [(''username'', JStr username), (''pattern'', JStr pattern)]"

section \<open>Properties\<close>

subsection \<open>Requests that pass the checks of the body\<close>

lemma map_of_key: "map_of kvs k = Some v \<Longrightarrow> k \<in> fst ` set kvs"
  by (metis domI dom_map_of_conv_image_fst)

lemma search_listing_failed:
  assumes "map_of kvs ''username'' = Some username"
    and "map_of kvs ''pattern'' = Some pattern"
    and "requests_get E (gists_url E username) = Inr resp"
    and "status_code resp \<noteq> 200"
    and "json_body resp = Some body"
    and "py_getitem body ''message'' = Inr msg"
  shows "search E (JObj kvs) =
           (Inr (JObj [(''status'', JStr ''failed''), (''message'', msg),
                       (''username'', username), (''pattern'', pattern),
                       (''matches'', JArr [])]),
            [gists_url E username])"
proof -
  have ne: "kvs \<noteq> []" using assms(1) by auto
  have g: "gists_for_user E username [] = (Inr (False, msg, body), [gists_url E username])"
    using assms(3-6) by (simp add: gists_for_user_def)
  show ?thesis
    using ne map_of_key[OF assms(1)] map_of_key[OF assms(2)] assms(1,2) g
    by (simp add: search_def)
qed

lemma search_listing_ok:
  assumes "map_of kvs ''username'' = Some username"
    and "map_of kvs ''pattern'' = Some pattern"
    and "requests_get E (gists_url E username) = Inr resp"
    and "status_code resp = 200"
    and "json_body resp = Some data"
  shows "search E (JObj kvs) =
     (case compile_pattern E pattern of
        Inl e \<Rightarrow> (Inl e, [gists_url E username])
      | Inr regex_pattern \<Rightarrow>
     (case py_set data of
        Inl e \<Rightarrow> (Inl e, [gists_url E username])
      | Inr gists \<Rightarrow>
     (case search_loop E regex_pattern username gists [] [gists_url E username] of
        (Inl e, lg') \<Rightarrow> (Inl e, lg')
      | (Inr match_list, lg') \<Rightarrow>
          (Inr (JObj [(''status'', JStr ''success''), (''username'', username),
                      (''pattern'', pattern), (''matches'', JArr match_list)]), lg'))))"
proof -
  have ne: "kvs \<noteq> []" using assms(1) by auto
  have g: "gists_for_user E username [] =
             (Inr (True, JStr ''Successful'', data), [gists_url E username])"
    using assms(3-5) by (simp add: gists_for_user_def)
  show ?thesis
    using ne map_of_key[OF assms(1)] map_of_key[OF assms(2)] assms(1,2) g
    by (simp add: search_def)
qed

lemma search_gist_hashable:
  "hashable gist \<Longrightarrow> search_gist E m u gist acc lg = (Inl TypeError, lg)"
  by (cases gist) (simp_all add: search_gist_def)

lemma search_loop_hashable:
  "list_all hashable gists \<Longrightarrow> gists \<noteq> [] \<Longrightarrow>
   search_loop E m u gists acc lg = (Inl TypeError, lg)"
  by (cases gists) (simp_all add: search_gist_hashable)

lemma py_set_unhashable:
  "g \<in> set gs \<Longrightarrow> \<not> hashable g \<Longrightarrow> py_set (JArr gs) = Inl TypeError"
  by (auto simp: py_set_def list_all_iff)

lemma set_add_hashable:
  "list_all hashable s \<Longrightarrow> hashable x \<Longrightarrow> list_all hashable (set_add s x)"
  by (simp add: set_add_def)

lemma foldl_set_add_hashable:
  "list_all hashable s \<Longrightarrow> list_all hashable xs \<Longrightarrow> list_all hashable (foldl set_add s xs)"
  by (induction xs arbitrary: s) (simp_all add: set_add_hashable)

lemma py_set_hashable: "py_set data = Inr gs \<Longrightarrow> list_all hashable gs"
  by (auto simp: py_set_def foldl_set_add_hashable split: sum.splits if_splits)

lemma search_dict_in_listing:
  assumes "map_of kvs ''username'' = Some username"
    and "map_of kvs ''pattern'' = Some pattern"
    and "requests_get E (gists_url E username) = Inr resp"
    and "status_code resp = 200"
    and "json_body resp = Some (JArr gs)"
    and "compile_pattern E pattern = Inr m"
    and "JObj g \<in> set gs"
  shows "search E (JObj kvs) = (Inl TypeError, [gists_url E username])"
proof -
  have "py_set (JArr gs) = Inl TypeError"
    using assms(7) by (rule py_set_unhashable) simp
  then show ?thesis
    using search_listing_ok[OF assms(1-5)] assms(6) by simp
qed

lemma search_loop_success:
  "list_all hashable gists \<Longrightarrow> search_loop E m u gists acc lg = (Inr ml, lg') \<Longrightarrow> ml = acc"
  by (cases gists) (simp_all add: search_gist_hashable)

lemma search_never_matches:
  assumes "search E post_data = (Inr (JObj r), lg)" and "map_of r ''matches'' = Some v"
  shows "v = JArr []"
  using assms
  by (auto simp: search_def split: if_splits sum.splits prod.splits
      dest!: py_set_hashable dest: search_loop_success)



subsection \<open>The reference semantics: case and line anchors\<close>








lemma flags_value: "re_MULTILINE OR re_IGNORECASE = 10"
  by (simp add: re_MULTILINE_def re_IGNORECASE_def)



lemma compile_pattern_str: "compile_pattern E (JStr p) = re_compile E p 10"
  by (simp add: compile_pattern_def flags_value)


lemma models_re_malformed:
  "models_re E \<Longrightarrow> ref_parse p = Malformed \<Longrightarrow> compile_pattern E (JStr p) = Inl ReError"
  unfolding models_re_def compile_pattern_str
  by (metis agrees.simps(2) insertCI)







lemma anchors_need_multiline:
  "ref_findall re_IGNORECASE [Bol, Lit CHR ''f'', Lit CHR ''o'', Lit CHR ''o'', Eol]
     (''bar'' @ [newline] @ ''foo'' @ [newline] @ ''baz'') = []"
  by (simp add: ref_findall_def chr_eq_def ignorecase_def multiline_def re_IGNORECASE_def
      re_MULTILINE_def py_lower_def newline_def)

lemma letters_need_ignorecase:
  "ref_findall re_MULTILINE [Bol, Lit CHR ''f'', Lit CHR ''o'', Lit CHR ''o'', Eol]
     (''bar'' @ [newline] @ ''FOO'' @ [newline] @ ''baz'') = []"
  by (simp add: ref_findall_def chr_eq_def ignorecase_def multiline_def re_IGNORECASE_def
      re_MULTILINE_def newline_def)

subsection \<open>The sample environment\<close>

lemma sample_url: "gists_url sample_env (JStr u) = ''https://api.github.com/users/'' @ u @ ''/gists''"
  by (simp add: gists_url_def sample_env_def sample_str_def)


lemma sample_compile:
  "compile_pattern sample_env (JStr p) = fragment_compile p 10"
  by (simp add: compile_pattern_def sample_env_def re_MULTILINE_def re_IGNORECASE_def)

lemma sample_get_octocat:
  "requests_get sample_env (gists_url sample_env (JStr ''octocat'')) =
     ok_json (JArr [gist_a, gist_b, gist_c])"
  by (simp add: sample_url) (simp add: sample_env_def sample_get_def)

lemma sample_get_twice:
  "requests_get sample_env (gists_url sample_env (JStr ''twice'')) = ok_json (JArr [gist_a, gist_a])"
  by (simp add: sample_url) (simp add: sample_env_def sample_get_def)

lemma sample_get_odd:
  "requests_get sample_env (gists_url sample_env (JStr ''odd'')) = ok_json (JArr [gist_none, gist_two])"
  by (simp add: sample_url) (simp add: sample_env_def sample_get_def)

lemma sample_compile_foo:
  "compile_pattern sample_env (JStr ''foo'') =
     Inr (ref_findall 10 [Lit CHR ''f'', Lit CHR ''o'', Lit CHR ''o''])"
  by (simp add: sample_compile fragment_compile_def ref_parse_def atom_of_def switch_off_def)

text \<open>
  The loop alone, run on the three gists of \<open>octocat\<close> in the order of the listing,
  fetches the three contents and keeps the address of the first gist only.
\<close>

lemma loop_on_sample_listing:
  "search_loop sample_env (ref_findall 10 [Lit CHR ''f'', Lit CHR ''o'', Lit CHR ''o''])
     (JStr ''octocat'') [gist_a, gist_b, gist_c] [] [] =
   (Inr [JStr ''https://gist.github.com/octocat/a1''],
    [''https://gist.example/raw/a'', ''https://gist.example/raw/b'', ''https://gist.example/raw/c''])"
  by code_simp

section \<open>The claims\<close>

text \<open>
  C1: an invalid pattern should give a result with status failed. The handler does not do
  so: when the listing succeeds, the exception of \<^verbatim>\<open>re.compile\<close> leaves \<open>search\<close>
  after the listing call.
\<close>

theorem compile_error_escapes:
  assumes "map_of kvs ''username'' = Some username"
    and "map_of kvs ''pattern'' = Some (JStr p)"
    and "requests_get E (gists_url E username) = Inr resp"
    and "status_code resp = 200"
    and "json_body resp = Some data"
    and "re_compile E p (re_MULTILINE OR re_IGNORECASE) = Inl e"
  shows "search E (JObj kvs) = (Inl e, [gists_url E username])"
  using search_listing_ok[OF assms(1-5)] assms(6) by (simp add: compile_pattern_def)

theorem compile_error_escapes_witness:
  "search sample_env (request ''octocat'' ''['') =
     (Inl ReError, [''https://api.github.com/users/octocat/gists''])"
proof -
  have u: "map_of [(''username'', JStr ''octocat''), (''pattern'', JStr ''['')] ''username'' = Some (JStr ''octocat'')"
    by simp
  have p: "map_of [(''username'', JStr ''octocat''), (''pattern'', JStr ''['')] ''pattern'' = Some (JStr ''['')"
    by simp
  have g: "requests_get sample_env (gists_url sample_env (JStr ''octocat'')) =
             Inr \<lparr>status_code = 200, text_body = ''(json)'', json_body = Some (JArr [gist_a, gist_b, gist_c])\<rparr>"
    by (simp add: sample_get_octocat ok_json_def)
  have s: "status_code \<lparr>status_code = 200, text_body = ''(json)'', json_body = Some (JArr [gist_a, gist_b, gist_c])\<rparr> = 200"
    by simp
  have j: "json_body \<lparr>status_code = 200, text_body = ''(json)'', json_body = Some (JArr [gist_a, gist_b, gist_c])\<rparr> =
             Some (JArr [gist_a, gist_b, gist_c])"
    by simp
  have c: "re_compile sample_env ''['' (re_MULTILINE OR re_IGNORECASE) = Inl ReError"
    by (simp add: sample_env_def fragment_compile_def ref_parse_def)
  show ?thesis
    using compile_error_escapes [OF u p g s j c] by (simp add: request_def sample_url)
qed

text \<open>
  C2: a gist with no file or with several files should be handled without a fault. The
  handler does not do so: on such a gist the body of the loop raises \<^verbatim>\<open>ValueError\<close> at
  the unpacking of line 92, and the search whose listing holds the gist ends in the
  \<^verbatim>\<open>TypeError\<close> of \<^verbatim>\<open>set(data)\<close> before the loop is entered.
\<close>

theorem files_not_single_faults:
  assumes "map_of kvs ''username'' = Some username"
    and "map_of kvs ''pattern'' = Some pattern"
    and "requests_get E (gists_url E username) = Inr resp"
    and "status_code resp = 200"
    and "json_body resp = Some (JArr gs)"
    and "compile_pattern E pattern = Inr m"
    and "gist \<in> set gs"
    and "py_getitem gist ''files'' = Inr (JObj fs)"
    and "length fs \<noteq> 1"
  shows "search_gist E m username gist match_list lg = (Inl ValueError, lg)
       \<and> search E (JObj kvs) = (Inl TypeError, [gists_url E username])"
proof
  have "unpack_single (map snd fs) = Inl ValueError"
  proof (cases fs)
    case Nil
    then show ?thesis by simp
  next
    case (Cons kv rest)
    then have "rest \<noteq> []" using assms(9) by auto
    then show ?thesis using Cons by (cases rest) simp_all
  qed
  then show "search_gist E m username gist match_list lg = (Inl ValueError, lg)"
    using assms(8) by (simp add: search_gist_def)
  obtain g where "gist = JObj g" using assms(8) by (cases gist) auto
  then have "JObj g \<in> set gs" using assms(7) by simp
  then show "search E (JObj kvs) = (Inl TypeError, [gists_url E username])"
    by (rule search_dict_in_listing[OF assms(1-6)])
qed

theorem files_not_single_faults_witness:
  "search_gist sample_env (ref_findall 10 [Lit CHR ''f'', Lit CHR ''o'', Lit CHR ''o''])
     (JStr ''odd'') gist_none [] [] = (Inl ValueError, [])
   \<and> search sample_env (request ''odd'' ''foo'') =
       (Inl TypeError, [''https://api.github.com/users/odd/gists''])"
proof -
  have u: "map_of [(''username'', JStr ''odd''), (''pattern'', JStr ''foo'')] ''username'' = Some (JStr ''odd'')"
    by simp
  have p: "map_of [(''username'', JStr ''odd''), (''pattern'', JStr ''foo'')] ''pattern'' = Some (JStr ''foo'')"
    by simp
  have g: "requests_get sample_env (gists_url sample_env (JStr ''odd'')) =
             Inr \<lparr>status_code = 200, text_body = ''(json)'', json_body = Some (JArr [gist_none, gist_two])\<rparr>"
    by (simp add: sample_get_odd ok_json_def)
  have s: "status_code \<lparr>status_code = 200, text_body = ''(json)'', json_body = Some (JArr [gist_none, gist_two])\<rparr> = 200"
    by simp
  have j: "json_body \<lparr>status_code = 200, text_body = ''(json)'', json_body = Some (JArr [gist_none, gist_two])\<rparr> =
             Some (JArr [gist_none, gist_two])"
    by simp
  have c: "compile_pattern sample_env (JStr ''foo'') =
             Inr (ref_findall 10 [Lit CHR ''f'', Lit CHR ''o'', Lit CHR ''o''])"
    by (rule sample_compile_foo)
  have m: "gist_none \<in> set [gist_none, gist_two]"
    by simp
  have f: "py_getitem gist_none ''files'' = Inr (JObj [])"
    by (simp add: gist_none_def gist_of_def)
  have l: "length ([] :: (string \<times> json) list) \<noteq> 1"
    by simp
  show ?thesis
    using files_not_single_faults [OF u p g s j c m f l, of "[]" "[]"]
    by (simp add: request_def sample_url)
qed

text \<open>
  C3: a listing that holds the same gist identifier twice should be searched once per
  identifier. The handler does not do so: \<^verbatim>\<open>set(data)\<close> raises \<^verbatim>\<open>TypeError\<close> on a
  listing of dicts, and the search ends in that exception.
\<close>

theorem duplicate_snippets_fault:
  assumes "map_of kvs ''username'' = Some username"
    and "map_of kvs ''pattern'' = Some pattern"
    and "requests_get E (gists_url E username) = Inr resp"
    and "status_code resp = 200"
    and "json_body resp = Some (JArr gs)"
    and "compile_pattern E pattern = Inr m"
    and "i < j" and "j < length gs"
    and "gs ! i = JObj g1" and "gs ! j = JObj g2"
    and "map_of g1 ''id'' = Some gid" and "map_of g2 ''id'' = Some gid"
  shows "search E (JObj kvs) = (Inl TypeError, [gists_url E username])"
proof -
  have "JObj g2 \<in> set gs" using assms(8,10) by (metis nth_mem)
  then show ?thesis by (rule search_dict_in_listing[OF assms(1-6)])
qed

theorem duplicate_snippets_fault_witness:
  "search sample_env (request ''twice'' ''foo'') =
     (Inl TypeError, [''https://api.github.com/users/twice/gists''])"
proof -
  have u: "map_of [(''username'', JStr ''twice''), (''pattern'', JStr ''foo'')] ''username'' = Some (JStr ''twice'')"
    by simp
  have p: "map_of [(''username'', JStr ''twice''), (''pattern'', JStr ''foo'')] ''pattern'' = Some (JStr ''foo'')"
    by simp
  have g: "requests_get sample_env (gists_url sample_env (JStr ''twice'')) =
             Inr \<lparr>status_code = 200, text_body = ''(json)'', json_body = Some (JArr [gist_a, gist_a])\<rparr>"
    by (simp add: sample_get_twice ok_json_def)
  have s: "status_code \<lparr>status_code = 200, text_body = ''(json)'', json_body = Some (JArr [gist_a, gist_a])\<rparr> = 200"
    by simp
  have j: "json_body \<lparr>status_code = 200, text_body = ''(json)'', json_body = Some (JArr [gist_a, gist_a])\<rparr> =
             Some (JArr [gist_a, gist_a])"
    by simp
  have c: "compile_pattern sample_env (JStr ''foo'') =
             Inr (ref_findall 10 [Lit CHR ''f'', Lit CHR ''o'', Lit CHR ''o''])"
    by (rule sample_compile_foo)
  have i: "(0::nat) < 1" "(1::nat) < length [gist_a, gist_a]"
    by simp_all
  have a: "[gist_a, gist_a] ! 0 = JObj [(''id'', JStr ''a1''),
             (''files'', JObj [(''a.txt'', JObj [(''raw_url'', JStr ''https://gist.example/raw/a'')])])]"
    "[gist_a, gist_a] ! 1 = JObj [(''id'', JStr ''a1''),
             (''files'', JObj [(''a.txt'', JObj [(''raw_url'', JStr ''https://gist.example/raw/a'')])])]"
    by (simp_all add: gist_a_def gist_of_def)
  have d: "map_of [(''id'', JStr ''a1''),
             (''files'', JObj [(''a.txt'', JObj [(''raw_url'', JStr ''https://gist.example/raw/a'')])])]
             ''id'' = Some (JStr ''a1'')"
    by simp
  show ?thesis
    using duplicate_snippets_fault [OF u p g s j c i a d d]
    by (simp add: request_def sample_url)
qed

text \<open>
  C4: the matches should be the addresses of the gists whose content was fetched and
  matched, in the order of the listing. The handler does not do so: a search whose
  listing holds a gist ends in \<^verbatim>\<open>TypeError\<close>, and every result that \<open>search\<close> returns
  with a \<open>matches\<close> key has the empty list there.
\<close>

theorem no_snippet_is_ever_matched:
  assumes "map_of kvs ''username'' = Some username"
    and "map_of kvs ''pattern'' = Some pattern"
    and "requests_get E (gists_url E username) = Inr resp"
    and "status_code resp = 200"
    and "json_body resp = Some (JArr gs)"
    and "compile_pattern E pattern = Inr m"
    and "JObj g \<in> set gs"
  shows "search E (JObj kvs) = (Inl TypeError, [gists_url E username])
       \<and> (\<forall>post_data r lg v.
             search E post_data = (Inr (JObj r), lg) \<and> map_of r ''matches'' = Some v
             \<longrightarrow> v = JArr [])"
proof
  show "search E (JObj kvs) = (Inl TypeError, [gists_url E username])"
    using assms(7) by (rule search_dict_in_listing[OF assms(1-6)])
  show "\<forall>post_data r lg v.
          search E post_data = (Inr (JObj r), lg) \<and> map_of r ''matches'' = Some v
          \<longrightarrow> v = JArr []"
    using search_never_matches by blast
qed

theorem no_snippet_is_ever_matched_witness:
  "search sample_env (request ''octocat'' ''foo'') =
     (Inl TypeError, [''https://api.github.com/users/octocat/gists''])"
proof -
  have u: "map_of [(''username'', JStr ''octocat''), (''pattern'', JStr ''foo'')] ''username'' = Some (JStr ''octocat'')"
    by simp
  have p: "map_of [(''username'', JStr ''octocat''), (''pattern'', JStr ''foo'')] ''pattern'' = Some (JStr ''foo'')"
    by simp
  have g: "requests_get sample_env (gists_url sample_env (JStr ''octocat'')) =
             Inr \<lparr>status_code = 200, text_body = ''(json)'', json_body = Some (JArr [gist_a, gist_b, gist_c])\<rparr>"
    by (simp add: sample_get_octocat ok_json_def)
  have s: "status_code \<lparr>status_code = 200, text_body = ''(json)'', json_body = Some (JArr [gist_a, gist_b, gist_c])\<rparr> = 200"
    by simp
  have j: "json_body \<lparr>status_code = 200, text_body = ''(json)'', json_body = Some (JArr [gist_a, gist_b, gist_c])\<rparr> =
             Some (JArr [gist_a, gist_b, gist_c])"
    by simp
  have c: "compile_pattern sample_env (JStr ''foo'') =
             Inr (ref_findall 10 [Lit CHR ''f'', Lit CHR ''o'', Lit CHR ''o''])"
    by (rule sample_compile_foo)
  have m: "JObj [(''id'', JStr ''b2''),
             (''files'', JObj [(''b.txt'', JObj [(''raw_url'', JStr ''https://gist.example/raw/b'')])])]
           \<in> set [gist_a, gist_b, gist_c]"
    by (simp add: gist_b_def gist_of_def)
  show ?thesis
    using no_snippet_is_ever_matched [OF u p g s j c m, THEN conjunct1]
    by (simp add: request_def sample_url)
qed

text \<open>
  C5, as stated, fails: a truthy body need not be an object. On the body \<open>5\<close> the test
  \<^verbatim>\<open>'username' not in post_data\<close> raises \<^verbatim>\<open>TypeError\<close>, and no field-required response
  is returned.
\<close>

theorem field_required_on_any_truthy_body_counterexample:
  "truthy (JInt 5)
   \<and> search sample_env (JInt 5) = (Inl TypeError, [])
   \<and> search sample_env (JInt 5) \<noteq>
       (Inr (JObj [(''status'', JStr ''failed''), (''message'', JStr ''username is required'')]), [])"
  by (simp add: search_def)

text \<open>
  C5, amended: for every request body that is a non-empty JSON object, the handler
  returns status failed with the message \<open>username is required\<close> when the object has no
  key \<open>username\<close>, and with the message \<open>pattern is required\<close> when it has the key
  \<open>username\<close> but no key \<open>pattern\<close>; in both cases the log of outbound requests is empty.
\<close>

theorem field_required_on_object_body:
  assumes "kvs \<noteq> []"
  shows "(''username'' \<notin> fst ` set kvs \<longrightarrow>
            search E (JObj kvs) =
              (Inr (JObj [(''status'', JStr ''failed''),
                          (''message'', JStr ''username is required'')]), []))
       \<and> (''username'' \<in> fst ` set kvs \<and> ''pattern'' \<notin> fst ` set kvs \<longrightarrow>
            search E (JObj kvs) =
              (Inr (JObj [(''status'', JStr ''failed''),
                          (''message'', JStr ''pattern is required'')]), []))"
  using assms by (simp add: search_def)

theorem field_required_on_object_body_witness:
  "search sample_env (JObj [(''pattern'', JStr ''foo'')]) =
     (Inr (JObj [(''status'', JStr ''failed''), (''message'', JStr ''username is required'')]), [])
   \<and> search sample_env (JObj [(''username'', JStr ''octocat'')]) =
     (Inr (JObj [(''status'', JStr ''failed''), (''message'', JStr ''pattern is required'')]), [])"
  using field_required_on_object_body [of "[(''pattern'', JStr ''foo'')]" sample_env]
    field_required_on_object_body [of "[(''username'', JStr ''octocat'')]" sample_env]
  by simp

text \<open>
  C6: a gist whose content cannot be fetched should be skipped and the search should go
  on. The body of the loop does skip it (the list of matches is unchanged and no
  exception is raised), but the search whose listing holds the gist never reaches the
  loop: it ends in the \<^verbatim>\<open>TypeError\<close> of \<^verbatim>\<open>set(data)\<close>.
\<close>

theorem failed_fetch_skipped_in_loop_only:
  assumes "map_of kvs ''username'' = Some username"
    and "map_of kvs ''pattern'' = Some pattern"
    and "requests_get E (gists_url E username) = Inr resp"
    and "status_code resp = 200"
    and "json_body resp = Some (JArr gs)"
    and "compile_pattern E pattern = Inr m"
    and "gist \<in> set gs"
    and "py_getitem gist ''files'' = Inr (JObj [(name, f)])"
    and "py_getitem f ''raw_url'' = Inr raw_url"
    and "requests_get E (py_str E raw_url) = Inr r"
    and "status_code r \<noteq> 200"
  shows "search_gist E m username gist match_list lg = (Inr match_list, lg @ [py_str E raw_url])
       \<and> search E (JObj kvs) = (Inl TypeError, [gists_url E username])"
proof
  show "search_gist E m username gist match_list lg = (Inr match_list, lg @ [py_str E raw_url])"
    using assms(8-11) by (simp add: search_gist_def)
  obtain g where "gist = JObj g" using assms(8) by (cases gist) auto
  then have "JObj g \<in> set gs" using assms(7) by simp
  then show "search E (JObj kvs) = (Inl TypeError, [gists_url E username])"
    by (rule search_dict_in_listing[OF assms(1-6)])
qed

theorem failed_fetch_skipped_in_loop_only_witness:
  "search_gist sample_env (ref_findall 10 [Lit CHR ''f'', Lit CHR ''o'', Lit CHR ''o''])
     (JStr ''octocat'') gist_c [JStr ''https://gist.github.com/octocat/a1''] [] =
     (Inr [JStr ''https://gist.github.com/octocat/a1''], [''https://gist.example/raw/c''])
   \<and> search sample_env (request ''octocat'' ''foo'') =
       (Inl TypeError, [''https://api.github.com/users/octocat/gists''])"
proof -
  have u: "map_of [(''username'', JStr ''octocat''), (''pattern'', JStr ''foo'')] ''username'' = Some (JStr ''octocat'')"
    by simp
  have p: "map_of [(''username'', JStr ''octocat''), (''pattern'', JStr ''foo'')] ''pattern'' = Some (JStr ''foo'')"
    by simp
  have g: "requests_get sample_env (gists_url sample_env (JStr ''octocat'')) =
             Inr \<lparr>status_code = 200, text_body = ''(json)'', json_body = Some (JArr [gist_a, gist_b, gist_c])\<rparr>"
    by (simp add: sample_get_octocat ok_json_def)
  have s: "status_code \<lparr>status_code = 200, text_body = ''(json)'', json_body = Some (JArr [gist_a, gist_b, gist_c])\<rparr> = 200"
    by simp
  have j: "json_body \<lparr>status_code = 200, text_body = ''(json)'', json_body = Some (JArr [gist_a, gist_b, gist_c])\<rparr> =
             Some (JArr [gist_a, gist_b, gist_c])"
    by simp
  have c: "compile_pattern sample_env (JStr ''foo'') =
             Inr (ref_findall 10 [Lit CHR ''f'', Lit CHR ''o'', Lit CHR ''o''])"
    by (rule sample_compile_foo)
  have m: "gist_c \<in> set [gist_a, gist_b, gist_c]"
    by simp
  have f: "py_getitem gist_c ''files'' =
             Inr (JObj [(''c.txt'', JObj [(''raw_url'', JStr ''https://gist.example/raw/c'')])])"
    by (simp add: gist_c_def gist_of_def)
  have r: "py_getitem (JObj [(''raw_url'', JStr ''https://gist.example/raw/c'')]) ''raw_url'' =
             Inr (JStr ''https://gist.example/raw/c'')"
    by simp
  have st: "py_str sample_env (JStr ''https://gist.example/raw/c'') = ''https://gist.example/raw/c''"
    by (simp add: sample_env_def sample_str_def)
  have q: "requests_get sample_env (py_str sample_env (JStr ''https://gist.example/raw/c'')) =
             Inr \<lparr>status_code = 404, text_body = ''gone'', json_body = None\<rparr>"
    unfolding st by (simp add: sample_env_def sample_get_def)
  have n: "status_code \<lparr>status_code = 404, text_body = ''gone'', json_body = None\<rparr> \<noteq> 200"
    by simp
  show ?thesis
    using failed_fetch_skipped_in_loop_only [OF u p g s j c m f r q n,
        of "[JStr ''https://gist.github.com/octocat/a1'']" "[]"]
    by (simp add: request_def sample_url st)
qed

text \<open>
  C7, as stated, fails: a listing call that answers with a status other than 200 need not
  carry a message. When its body is no JSON, \<^verbatim>\<open>response.json()\<close> at line 51 raises; when
  its body is a JSON object without the key \<open>message\<close>, line 54 raises \<^verbatim>\<open>KeyError\<close>.
  Neither request gets a result with status failed.
\<close>

theorem listing_failure_without_message_counterexample:
  "requests_get sample_env (gists_url sample_env (JStr ''down'')) =
     Inr \<lparr>status_code = 502, text_body = ''Bad Gateway'', json_body = None\<rparr>
   \<and> search sample_env (request ''down'' ''foo'') =
       (Inl JSONDecodeError, [''https://api.github.com/users/down/gists''])
   \<and> requests_get sample_env (gists_url sample_env (JStr ''quiet'')) =
       Inr \<lparr>status_code = 403, text_body = ''(json)'',
            json_body = Some (JObj [(''error'', JStr ''Forbidden'')])\<rparr>
   \<and> search sample_env (request ''quiet'' ''foo'') =
       (Inl KeyError, [''https://api.github.com/users/quiet/gists''])"
proof -
  have d: "requests_get sample_env (gists_url sample_env (JStr ''down'')) =
     Inr \<lparr>status_code = 502, text_body = ''Bad Gateway'', json_body = None\<rparr>"
    by (simp add: sample_url) (simp add: sample_env_def sample_get_def)
  have q: "requests_get sample_env (gists_url sample_env (JStr ''quiet'')) =
       Inr \<lparr>status_code = 403, text_body = ''(json)'',
            json_body = Some (JObj [(''error'', JStr ''Forbidden'')])\<rparr>"
    by (simp add: sample_url) (simp add: sample_env_def sample_get_def)
  have sd: "search sample_env (request ''down'' ''foo'') =
       (Inl JSONDecodeError, [''https://api.github.com/users/down/gists''])"
    by (simp add: search_def request_def gists_for_user_def d) (simp add: sample_url)
  have sq: "search sample_env (request ''quiet'' ''foo'') =
       (Inl KeyError, [''https://api.github.com/users/quiet/gists''])"
    by (simp add: search_def request_def gists_for_user_def q) (simp add: sample_url)
  show ?thesis using d q sd sq by (intro conjI)
qed

text \<open>
  C7, amended: when the request carries a username and a pattern and the listing call
  answers with a status other than 200 and a body that is a JSON object holding a
  \<open>message\<close>, the handler returns status failed, that very message, the username and the
  pattern of the request, and an empty \<open>matches\<close>; the listing call is the only outbound
  request.
\<close>

theorem listing_failure_reported:
  assumes "map_of kvs ''username'' = Some username"
    and "map_of kvs ''pattern'' = Some pattern"
    and "requests_get E (gists_url E username) = Inr resp"
    and "status_code resp \<noteq> 200"
    and "json_body resp = Some body"
    and "py_getitem body ''message'' = Inr msg"
  shows "search E (JObj kvs) =
           (Inr (JObj [(''status'', JStr ''failed''), (''message'', msg),
                       (''username'', username), (''pattern'', pattern),
                       (''matches'', JArr [])]),
            [gists_url E username])"
  using assms by (rule search_listing_failed)

theorem listing_failure_reported_witness:
  "search sample_env (request ''ghost'' ''foo'') =
     (Inr (JObj [(''status'', JStr ''failed''), (''message'', JStr ''Not Found''),
                 (''username'', JStr ''ghost''), (''pattern'', JStr ''foo''),
                 (''matches'', JArr [])]),
      [''https://api.github.com/users/ghost/gists''])"
  using listing_failure_reported [of "[(''username'', JStr ''ghost''), (''pattern'', JStr ''foo'')]"
      "JStr ''ghost''" "JStr ''foo''" sample_env
      "\<lparr>status_code = 404, text_body = ''(json)'',
        json_body = Some (JObj [(''message'', JStr ''Not Found'')])\<rparr>"
      "JObj [(''message'', JStr ''Not Found'')]" "JStr ''Not Found''"]
  by (simp add: request_def sample_url) (simp add: sample_env_def sample_get_def)




text \<open>
  C9: for every body whose decoded value is falsy (among them the empty object, false,
  0, the empty string and null) the handler returns status failed with the message
  \<open>Invalid parameters\<close> and makes no outbound request; the empty object does not get the
  answer \<open>username is required\<close>.
\<close>

theorem invalid_parameters_on_falsy_body:
  "(\<not> truthy post_data \<longrightarrow>
      search E post_data =
        (Inr (JObj [(''status'', JStr ''failed''), (''message'', JStr ''Invalid parameters'')]), []))
   \<and> \<not> truthy (JObj []) \<and> \<not> truthy (JBool False) \<and> \<not> truthy (JInt 0)
   \<and> \<not> truthy (JStr []) \<and> \<not> truthy JNull
   \<and> search E (JObj []) \<noteq>
        (Inr (JObj [(''status'', JStr ''failed''), (''message'', JStr ''username is required'')]), [])"
  by (simp add: search_def)

theorem invalid_parameters_on_falsy_body_witness:
  "search sample_env (JObj []) =
     (Inr (JObj [(''status'', JStr ''failed''), (''message'', JStr ''Invalid parameters'')]), [])
   \<and> search sample_env JNull = search sample_env (JObj [])"
  using invalid_parameters_on_falsy_body [of "JObj []" sample_env]
    invalid_parameters_on_falsy_body [of JNull sample_env]
  by simp

text \<open>
  C10, as stated, fails for the same reason as C5: the body \<open>true\<close> is truthy and has
  neither field, and the handler raises \<^verbatim>\<open>TypeError\<close> on it.
\<close>

theorem username_first_on_any_truthy_body_counterexample:
  "truthy (JBool True)
   \<and> search sample_env (JBool True) = (Inl TypeError, [])
   \<and> search sample_env (JBool True) \<noteq>
       (Inr (JObj [(''status'', JStr ''failed''), (''message'', JStr ''username is required'')]), [])"
  by (simp add: search_def)

text \<open>
  C10, amended: for every request body that is a non-empty JSON object with neither a key
  \<open>username\<close> nor a key \<open>pattern\<close> the message is \<open>username is required\<close>, and whenever
  such an object lacks one of the two keys the returned object has the keys \<open>status\<close>
  and \<open>message\<close> and no other.
\<close>

theorem username_first_on_object_body:
  assumes "kvs \<noteq> []"
  shows "(''username'' \<notin> fst ` set kvs \<and> ''pattern'' \<notin> fst ` set kvs \<longrightarrow>
            search E (JObj kvs) =
              (Inr (JObj [(''status'', JStr ''failed''),
                          (''message'', JStr ''username is required'')]), []))
       \<and> (\<forall>r lg. (''username'' \<notin> fst ` set kvs \<or> ''pattern'' \<notin> fst ` set kvs) \<and>
                  search E (JObj kvs) = (Inr (JObj r), lg) \<longrightarrow>
                  map fst r = [''status'', ''message''])"
  using assms by (auto simp: search_def)

theorem username_first_on_object_body_witness:
  "search sample_env (JObj [(''user'', JStr ''octocat'')]) =
     (Inr (JObj [(''status'', JStr ''failed''), (''message'', JStr ''username is required'')]), [])"
  using username_first_on_object_body [of "[(''user'', JStr ''octocat'')]" sample_env]
  by simp

end
